theory Spec2Isabelle
  imports Main
begin

section \<open>The bridging header as text\<close>

text \<open>
  The repository slice is one file, \<^verbatim>\<open>VivyTerm/ghostty-bridging-header.h\<close>.
  It is embedded as the character string it is: every line of the file, in order,
  each but the last ended by a newline (the file has no newline after its \<^verbatim>\<open>#endif\<close>).
\<close>

definition header_text :: string where
  \<open>header_text =
     ''//\<newline>'' @
     ''//  ghostty-bridging-header.h\<newline>'' @
     ''//  VivyTerm\<newline>'' @
     ''//\<newline>'' @
     ''//  Bridging header to expose C APIs to Swift\<newline>'' @
     ''//\<newline>'' @
     ''\<newline>'' @
     ''#ifndef ghostty_bridging_header_h\<newline>'' @
     ''#define ghostty_bridging_header_h\<newline>'' @
     ''\<newline>'' @
     ''// Import the main Ghostty C API\<newline>'' @
     ''// Note: ghostty.h already includes all necessary definitions\<newline>'' @
     ''// Do NOT include ghostty/vt.h as it causes duplicate enum definitions\<newline>'' @
     ''#import "../Vendor/libghostty/include/ghostty.h"\<newline>'' @
     ''\<newline>'' @
     ''// Import libssh2 for SSH connections\<newline>'' @
     ''// Uses header search paths configured in Xcode build settings\<newline>'' @
     ''#include <libssh2.h>\<newline>'' @
     ''#include <libssh2_sftp.h>\<newline>'' @
     ''\<newline>'' @
     ''#endif /* ghostty_bridging_header_h */''\<close>

definition guard :: string where
  \<open>guard = ''ghostty_bridging_header_h''\<close>

section \<open>Lines and their lexical classes\<close>

text \<open>
  A text is cut at newline characters; a final line without a newline is a line, and a
  newline at the very end opens no further line.
\<close>

fun lines_acc :: "string \<Rightarrow> string \<Rightarrow> string list" where
  "lines_acc cur [] = (if cur = [] then [] else [rev cur])"
| "lines_acc cur (c # cs) =
     (if c = CHR ''\<newline>'' then rev cur # lines_acc [] cs
      else lines_acc (c # cur) cs)"

definition split_lines :: "string \<Rightarrow> string list" where
  "split_lines txt = lines_acc [] txt"

definition is_space :: "char \<Rightarrow> bool" where
  "is_space c = (c = CHR '' '' \<or> c = CHR 0x09)"

definition is_ident_char :: "char \<Rightarrow> bool" where
  "is_ident_char c =
     (c \<in> set ''abcdefghijklmnopqrstuvwxyzABCDEFGHIJKLMNOPQRSTUVWXYZ0123456789_'')"

definition ltrim :: "string \<Rightarrow> string" where
  "ltrim s = dropWhile is_space s"

definition rtrim :: "string \<Rightarrow> string" where
  "rtrim s = rev (dropWhile is_space (rev s))"

text \<open>
  Comments inside a directive's operand: a \<^verbatim>\<open>/* ... */\<close> block is dropped (an unclosed
  one runs to the end of the line) and \<^verbatim>\<open>//\<close> cuts the rest of the line.
\<close>

fun strip_comments :: "bool \<Rightarrow> string \<Rightarrow> string" where
  "strip_comments inside [] = []"
| "strip_comments inside [c] = (if inside then [] else [c])"
| "strip_comments inside (c # d # cs) =
     (if inside then
        (if c = CHR ''*'' \<and> d = CHR ''/'' then strip_comments False cs
         else strip_comments True (d # cs))
      else if c = CHR ''/'' \<and> d = CHR ''/'' then []
      else if c = CHR ''/'' \<and> d = CHR ''*'' then strip_comments True cs
      else c # strip_comments False (d # cs))"

text \<open>
  The operand of \<^verbatim>\<open>#include\<close> and \<^verbatim>\<open>#import\<close>: a path between double quotes
  (searched from the including file's directory) or between angle brackets (searched on
  the configured header search paths).
\<close>

datatype inc_target = Quoted string | Angled string

fun parse_target :: "string \<Rightarrow> inc_target option" where
  "parse_target [] = None"
| "parse_target (c # cs) =
     (if c = CHR 0x22 then
        (if CHR 0x22 \<in> set cs then Some (Quoted (takeWhile (\<lambda>x. x \<noteq> CHR 0x22) cs)) else None)
      else if c = CHR ''<'' then
        (if CHR ''>'' \<in> set cs then Some (Angled (takeWhile (\<lambda>x. x \<noteq> CHR ''>'') cs)) else None)
      else None)"

datatype directive =
    Ifndef string
  | Define string string
  | Endif
  | Import inc_target
  | Include inc_target
  | Unknown string string

text \<open>
  A directive line without its \<^verbatim>\<open>#\<close>: the keyword is the leading identifier, the
  operand is what follows it. \<^verbatim>\<open>#define\<close> takes a macro name and a replacement
  (the rest of the line, comments and outer blanks removed).
\<close>

definition directive_keyword :: "string \<Rightarrow> string" where
  "directive_keyword s = takeWhile is_ident_char (ltrim s)"

definition directive_operand :: "string \<Rightarrow> string" where
  "directive_operand s = ltrim (dropWhile is_ident_char (ltrim s))"

definition parse_directive :: "string \<Rightarrow> directive" where
  "parse_directive s =
     (let kw = directive_keyword s; arg = directive_operand s in
      if kw = ''ifndef'' then Ifndef (takeWhile is_ident_char arg)
      else if kw = ''define'' then
        Define (takeWhile is_ident_char arg)
               (rtrim (ltrim (strip_comments False (dropWhile is_ident_char arg))))
      else if kw = ''endif'' then Endif
      else if kw = ''import'' then
        (case parse_target arg of Some t \<Rightarrow> Import t | None \<Rightarrow> Unknown kw arg)
      else if kw = ''include'' then
        (case parse_target arg of Some t \<Rightarrow> Include t | None \<Rightarrow> Unknown kw arg)
      else Unknown kw arg)"

text \<open>
  A line is classified by how it begins after its leading blanks: with nothing (blank),
  with \<^verbatim>\<open>//\<close> (comment), with \<^verbatim>\<open>#\<close> (directive); every other line is program
  text. A line that opens with a block comment counts as program text, so the
  classification errs on the side of finding code.
\<close>

datatype line = Blank | Comment string | Directive directive | Code string

fun classify_trimmed :: "string \<Rightarrow> line" where
  "classify_trimmed [] = Blank"
| "classify_trimmed [c] = (if c = CHR ''#'' then Directive (parse_directive []) else Code [c])"
| "classify_trimmed (c # d # cs) =
     (if c = CHR ''#'' then Directive (parse_directive (d # cs))
      else if c = CHR ''/'' \<and> d = CHR ''/'' then Comment cs
      else Code (c # d # cs))"

definition classify :: "string \<Rightarrow> line" where
  "classify l = classify_trimmed (ltrim l)"

definition parse :: "string \<Rightarrow> line list" where
  "parse txt = map classify (split_lines txt)"

definition header_lines :: "line list" where
  "header_lines = parse header_text"

section \<open>Static content of a file\<close>

fun directives_of :: "line list \<Rightarrow> directive list" where
  "directives_of [] = []"
| "directives_of (Directive d # ls) = d # directives_of ls"
| "directives_of (_ # ls) = directives_of ls"

text \<open>
  Every line that is neither blank, nor a comment, nor a directive is program text: a
  declaration, a definition or a statement of the file's own.
\<close>

fun code_lines :: "line list \<Rightarrow> string list" where
  "code_lines [] = []"
| "code_lines (Code c # ls) = c # code_lines ls"
| "code_lines (_ # ls) = code_lines ls"

fun is_comment :: "line \<Rightarrow> bool" where
  "is_comment (Comment _) = True"
| "is_comment _ = False"

text \<open>The three directives of an include guard on the macro \<open>g\<close>.\<close>

definition is_guard_directive :: "string \<Rightarrow> directive \<Rightarrow> bool" where
  "is_guard_directive g d = (d = Ifndef g \<or> d = Define g [] \<or> d = Endif)"

fun is_hash_include :: "directive \<Rightarrow> bool" where
  "is_hash_include (Include _) = True"
| "is_hash_include _ = False"

fun is_hash_import :: "directive \<Rightarrow> bool" where
  "is_hash_import (Import _) = True"
| "is_hash_import _ = False"

definition non_guard_directives :: "line list \<Rightarrow> directive list" where
  "non_guard_directives ls = filter (\<lambda>d. \<not> is_guard_directive guard d) (directives_of ls)"

fun included_targets :: "line list \<Rightarrow> inc_target list" where
  "included_targets [] = []"
| "included_targets (Directive (Import t) # ls) = t # included_targets ls"
| "included_targets (Directive (Include t) # ls) = t # included_targets ls"
| "included_targets (_ # ls) = included_targets ls"

fun own_defines :: "line list \<Rightarrow> (string \<times> string) list" where
  "own_defines [] = []"
| "own_defines (Directive (Define m b) # ls) = (m, b) # own_defines ls"
| "own_defines (_ # ls) = own_defines ls"

fun is_guard_line :: "line \<Rightarrow> bool" where
  "is_guard_line (Directive d) = is_guard_directive guard d"
| "is_guard_line _ = False"

fun is_inclusion_line :: "line \<Rightarrow> bool" where
  "is_inclusion_line (Directive d) = (is_hash_import d \<or> is_hash_include d)"
| "is_inclusion_line _ = False"

text \<open>The keyword after \<^verbatim>\<open>#\<close> of a raw line, when the line is a directive.\<close>

definition hash_keyword :: "string \<Rightarrow> string option" where
  "hash_keyword l =
     (case ltrim l of
        [] \<Rightarrow> None
      | c # cs \<Rightarrow> if c = CHR ''#'' then Some (directive_keyword cs) else None)"

definition ghostty_h :: inc_target where
  "ghostty_h = Quoted ''../Vendor/libghostty/include/ghostty.h''"

definition libssh2_h :: inc_target where
  "libssh2_h = Angled ''libssh2.h''"

definition libssh2_sftp_h :: inc_target where
  "libssh2_sftp_h = Angled ''libssh2_sftp.h''"

section \<open>Preprocessing\<close>

text \<open>
  What a translation unit has accumulated so far: the macros defined (name and
  replacement, newest first), the files already entered (which is what \<^verbatim>\<open>#import\<close>
  consults), and the program text that has become visible.
\<close>

record pp_state =
  macros :: "(string \<times> string) list"
  seen :: "inc_target list"
  decls :: "string list"

datatype pp_error =
    EndifWithoutIf
  | UnterminatedConditional
  | InvalidDirective string
  | HeaderNotFound inc_target
  | HeaderFailed inc_target

text \<open>
  The headers named by the file (\<^verbatim>\<open>ghostty.h\<close>, \<^verbatim>\<open>libssh2.h\<close>, \<^verbatim>\<open>libssh2_sftp.h\<close>)
  are not part of the repository. They are a parameter: for each operand, whether a
  file is found for it (\<open>None\<close> when none is), and what the file found does to the unit
  when it is entered, which may itself fail (\<open>None\<close> again).
\<close>

type_synonym header_effect = "pp_state \<Rightarrow> pp_state option"

type_synonym headers = "inc_target \<Rightarrow> header_effect option"

definition defined_macro :: "string \<Rightarrow> pp_state \<Rightarrow> bool" where
  "defined_macro m s = (m \<in> fst ` set (macros s))"

definition define_macro :: "string \<Rightarrow> string \<Rightarrow> pp_state \<Rightarrow> pp_state" where
  "define_macro m b s = s\<lparr>macros := (m, b) # macros s\<rparr>"

text \<open>
  \<^verbatim>\<open>#include\<close> enters the file every time; \<^verbatim>\<open>#import\<close> enters it unless it was
  entered before. A file is identified by its operand as written. Entering a file that
  is not found stops preprocessing with an error, and so does a file that fails.
\<close>

definition include_file :: "headers \<Rightarrow> inc_target \<Rightarrow> pp_state \<Rightarrow> pp_error + pp_state" where
  "include_file ext t s =
     (case ext t of
        None \<Rightarrow> Inl (HeaderNotFound t)
      | Some h \<Rightarrow>
          (case h (s\<lparr>seen := t # seen s\<rparr>) of
             None \<Rightarrow> Inl (HeaderFailed t)
           | Some s' \<Rightarrow> Inr s'))"

definition import_once :: "headers \<Rightarrow> inc_target \<Rightarrow> pp_state \<Rightarrow> pp_error + pp_state" where
  "import_once ext t s = (if t \<in> set (seen s) then Inr s else include_file ext t s)"

text \<open>Sequencing: the first error ends the computation.\<close>

definition and_then :: "'e + 'a \<Rightarrow> ('a \<Rightarrow> 'e + 'b) \<Rightarrow> 'e + 'b" where
  "and_then r f = (case r of Inl e \<Rightarrow> Inl e | Inr x \<Rightarrow> f x)"

text \<open>
  The stack holds one flag per open conditional, innermost first: whether the lines
  under it are processed. A conditional opened inside a skipped group is itself skipped.
\<close>

definition active :: "bool list \<Rightarrow> bool" where
  "active stk = (case stk of [] \<Rightarrow> True | b # _ \<Rightarrow> b)"

fun run :: "headers \<Rightarrow> line list \<Rightarrow> bool list \<Rightarrow> pp_state \<Rightarrow> pp_error + pp_state" where
  "run ext [] stk s = (if stk = [] then Inr s else Inl UnterminatedConditional)"
| "run ext (Blank # ls) stk s = run ext ls stk s"
| "run ext (Comment _ # ls) stk s = run ext ls stk s"
| "run ext (Code c # ls) stk s =
     run ext ls stk (if active stk then s\<lparr>decls := decls s @ [c]\<rparr> else s)"
| "run ext (Directive (Ifndef m) # ls) stk s =
     run ext ls ((active stk \<and> \<not> defined_macro m s) # stk) s"
| "run ext (Directive (Define m b) # ls) stk s =
     run ext ls stk (if active stk then define_macro m b s else s)"
| "run ext (Directive Endif # ls) stk s =
     (case stk of [] \<Rightarrow> Inl EndifWithoutIf | _ # stk' \<Rightarrow> run ext ls stk' s)"
| "run ext (Directive (Import t) # ls) stk s =
     (if active stk then
        (case import_once ext t s of Inl e \<Rightarrow> Inl e | Inr s' \<Rightarrow> run ext ls stk s')
      else run ext ls stk s)"
| "run ext (Directive (Include t) # ls) stk s =
     (if active stk then
        (case include_file ext t s of Inl e \<Rightarrow> Inl e | Inr s' \<Rightarrow> run ext ls stk s')
      else run ext ls stk s)"
| "run ext (Directive (Unknown kw arg) # ls) stk s =
     (if active stk then Inl (InvalidDirective kw) else run ext ls stk s)"

definition preprocess :: "headers \<Rightarrow> string \<Rightarrow> pp_state \<Rightarrow> pp_error + pp_state" where
  "preprocess ext txt s = run ext (parse txt) [] s"

definition include_header :: "headers \<Rightarrow> pp_state \<Rightarrow> pp_error + pp_state" where
  "include_header ext s = preprocess ext header_text s"

text \<open>Including the header \<open>n\<close> times in a row.\<close>

fun include_times :: "headers \<Rightarrow> nat \<Rightarrow> pp_state \<Rightarrow> pp_error + pp_state" where
  "include_times ext 0 s = Inr s"
| "include_times ext (Suc n) s =
     (case include_header ext s of Inl e \<Rightarrow> Inl e | Inr s' \<Rightarrow> include_times ext n s')"

text \<open>External headers that leave the guard macro of this file defined once it is.\<close>

definition keeps_guard :: "headers \<Rightarrow> bool" where
  "keeps_guard ext =
     (\<forall>t h s s'. ext t = Some h \<longrightarrow> defined_macro guard s \<longrightarrow> h s = Some s' \<longrightarrow>
        defined_macro guard s')"

text \<open>The three headers the file names are found, and entering them does not fail.\<close>

definition headers_process :: "headers \<Rightarrow> bool" where
  "headers_process ext =
     (\<forall>t \<in> set [ghostty_h, libssh2_h, libssh2_sftp_h].
        \<exists>h. ext t = Some h \<and> (\<forall>s. h s \<noteq> None))"


definition no_headers :: headers where
  "no_headers t = Some (\<lambda>s. Some s)"

definition stub_headers :: headers where
  "stub_headers t =
     Some (\<lambda>s. Some (s\<lparr>decls := decls s @ [case t of Quoted p \<Rightarrow> p | Angled p \<Rightarrow> p]\<rparr>))"

definition empty_unit :: pp_state where
  "empty_unit = \<lparr>macros = [], seen = [], decls = []\<rparr>"

section \<open>The parsed header\<close>

lemma header_lines_eq:
  \<open>header_lines =
    [Comment [], Comment ''  ghostty-bridging-header.h'', Comment ''  VivyTerm'',
     Comment [], Comment ''  Bridging header to expose C APIs to Swift'', Comment [],
     Blank,
     Directive (Ifndef ''ghostty_bridging_header_h''),
     Directive (Define ''ghostty_bridging_header_h'' []),
     Blank,
     Comment '' Import the main Ghostty C API'',
     Comment '' Note: ghostty.h already includes all necessary definitions'',
     Comment '' Do NOT include ghostty/vt.h as it causes duplicate enum definitions'',
     Directive (Import (Quoted ''../Vendor/libghostty/include/ghostty.h'')),
     Blank,
     Comment '' Import libssh2 for SSH connections'',
     Comment '' Uses header search paths configured in Xcode build settings'',
     Directive (Include (Angled ''libssh2.h'')),
     Directive (Include (Angled ''libssh2_sftp.h'')),
     Blank,
     Directive Endif]\<close>
  by code_simp

lemma split_header_length: "length (split_lines header_text) = 21"
  by code_simp

lemma raw_line_14:
  \<open>split_lines header_text ! 13 = ''#import "../Vendor/libghostty/include/ghostty.h"''\<close>
  by code_simp

lemma code_lines_header: "code_lines header_lines = []"
  by (simp add: header_lines_eq)

lemma directives_header:
  "directives_of header_lines =
     [Ifndef guard, Define guard [], Import ghostty_h, Include libssh2_h,
      Include libssh2_sftp_h, Endif]"
  by (simp add: header_lines_eq guard_def ghostty_h_def libssh2_h_def libssh2_sftp_h_def)

section \<open>Running the header\<close>

lemma include_header_run: "include_header ext s = run ext header_lines [] s"
  by (simp add: include_header_def preprocess_def header_lines_def)

text \<open>With the guard defined, the conditional skips every line up to \<^verbatim>\<open>#endif\<close>.\<close>

lemma include_header_guarded:
  assumes "defined_macro guard s"
  shows "include_header ext s = Inr s"
  using assms by (simp add: include_header_run header_lines_eq active_def guard_def)

text \<open>Without it, the four directives of the body run in order.\<close>

lemma include_header_fresh:
  assumes "\<not> defined_macro guard s"
  shows "include_header ext s =
           and_then
             (and_then (import_once ext ghostty_h (define_macro guard [] s))
                (include_file ext libssh2_h))
             (include_file ext libssh2_sftp_h)"
  using assms
  by (simp add: include_header_run header_lines_eq active_def guard_def and_then_def
      ghostty_h_def libssh2_h_def libssh2_sftp_h_def split: sum.splits)

lemma defined_define [simp]: "defined_macro m (define_macro m b s)"
  by (simp add: defined_macro_def define_macro_def)



lemma include_file_processes:
  assumes "headers_process ext" and "t \<in> set [ghostty_h, libssh2_h, libssh2_sftp_h]"
  shows "\<exists>s'. include_file ext t s = Inr s'"
proof -
  from assms obtain h where h: "ext t = Some h" and ok: "\<forall>s. h s \<noteq> None"
    unfolding headers_process_def by blast
  from ok obtain s' where "h (s\<lparr>seen := t # seen s\<rparr>) = Some s'" by blast
  with h show ?thesis by (simp add: include_file_def)
qed

lemma import_once_processes:
  assumes "headers_process ext" and "t \<in> set [ghostty_h, libssh2_h, libssh2_sftp_h]"
  shows "\<exists>s'. import_once ext t s = Inr s'"
  using include_file_processes [OF assms] by (simp add: import_once_def)

lemma keeps_include_file:
  "keeps_guard ext \<Longrightarrow> defined_macro guard s \<Longrightarrow> include_file ext t s = Inr s' \<Longrightarrow>
   defined_macro guard s'"
proof -
  assume k: "keeps_guard ext" and d: "defined_macro guard s"
    and r: "include_file ext t s = Inr s'"
  from r obtain h where h: "ext t = Some h" and hs: "h (s\<lparr>seen := t # seen s\<rparr>) = Some s'"
    by (auto simp: include_file_def split: option.splits)
  from d have "defined_macro guard (s\<lparr>seen := t # seen s\<rparr>)"
    by (simp add: defined_macro_def)
  with k h hs show ?thesis unfolding keeps_guard_def by blast
qed

lemma keeps_import_once:
  "keeps_guard ext \<Longrightarrow> defined_macro guard s \<Longrightarrow> import_once ext t s = Inr s' \<Longrightarrow>
   defined_macro guard s'"
  by (auto simp: import_once_def split: if_splits dest: keeps_include_file)

lemma include_header_defines:
  assumes "keeps_guard ext" and "include_header ext s = Inr s'"
  shows "defined_macro guard s'"
proof (cases "defined_macro guard s")
  case True
  with assms(2) show ?thesis by (simp add: include_header_guarded)
next
  case False
  with assms(2) obtain s1 s2
    where 1: "import_once ext ghostty_h (define_macro guard [] s) = Inr s1"
      and 2: "include_file ext libssh2_h s1 = Inr s2"
      and 3: "include_file ext libssh2_sftp_h s2 = Inr s'"
    by (auto simp: include_header_fresh and_then_def split: sum.splits)
  have "defined_macro guard (define_macro guard [] s)" by simp
  with assms(1) 1 have "defined_macro guard s1" by (blast intro: keeps_import_once)
  with assms(1) 2 have "defined_macro guard s2" by (blast intro: keeps_include_file)
  with assms(1) 3 show ?thesis by (blast intro: keeps_include_file)
qed


text \<open>When the three headers process, so does the file.\<close>

lemma include_header_processes:
  assumes "headers_process ext"
  shows "\<exists>s'. include_header ext s = Inr s'"
proof (cases "defined_macro guard s")
  case True
  then show ?thesis by (simp add: include_header_guarded)
next
  case False
  from import_once_processes [OF assms, of ghostty_h "define_macro guard [] s"]
  obtain s1 where 1: "import_once ext ghostty_h (define_macro guard [] s) = Inr s1" by auto
  from include_file_processes [OF assms, of libssh2_h s1]
  obtain s2 where 2: "include_file ext libssh2_h s1 = Inr s2" by auto
  from include_file_processes [OF assms, of libssh2_sftp_h s2]
  obtain s3 where 3: "include_file ext libssh2_sftp_h s2 = Inr s3" by auto
  from False 1 2 3 show ?thesis by (simp add: include_header_fresh and_then_def)
qed

lemma include_times_guarded:
  "defined_macro guard s \<Longrightarrow> include_times ext n s = Inr s"
  by (induction n) (simp_all add: include_header_guarded)

lemma include_times_Suc:
  assumes "keeps_guard ext"
  shows "include_times ext (Suc n) s = include_header ext s"
proof (cases "include_header ext s")
  case (Inl e)
  then show ?thesis by simp
next
  case (Inr s')
  with assms have "defined_macro guard s'" by (rule include_header_defines)
  then have "include_times ext n s' = Inr s'" by (rule include_times_guarded)
  with Inr show ?thesis by simp
qed

lemma keeps_guard_stub: "keeps_guard stub_headers"
  by (auto simp: keeps_guard_def stub_headers_def defined_macro_def)

lemma headers_process_stub: "headers_process stub_headers"
  by (simp add: headers_process_def stub_headers_def)

lemma fresh_empty_unit: "\<not> defined_macro guard empty_unit"
  by (simp add: defined_macro_def empty_unit_def)

lemma include_header_stub_empty:
  "include_header stub_headers empty_unit =
     Inr \<lparr>macros = [(''ghostty_bridging_header_h'', [])],
          seen = [Angled ''libssh2_sftp.h'', Angled ''libssh2.h'',
                  Quoted ''../Vendor/libghostty/include/ghostty.h''],
          decls = [''../Vendor/libghostty/include/ghostty.h'', ''libssh2.h'',
                   ''libssh2_sftp.h'']\<rparr>"
  unfolding include_header_fresh [OF fresh_empty_unit]
  by (simp add: and_then_def include_file_def import_once_def define_macro_def
      stub_headers_def empty_unit_def guard_def ghostty_h_def libssh2_h_def
      libssh2_sftp_h_def)


lemma include_header_no_headers:
  "include_header no_headers s =
     Inr (if defined_macro guard s then s
          else s\<lparr>macros := (guard, []) # macros s,
                 seen := libssh2_sftp_h # libssh2_h #
                   (if ghostty_h \<in> set (seen s) then seen s else ghostty_h # seen s)\<rparr>)"
  by (simp add: include_header_guarded include_header_fresh and_then_def include_file_def
      import_once_def define_macro_def no_headers_def)

section \<open>Claims about the header\<close>

text \<open>
  C1. Including the header makes available exactly what the three external headers
  make available, and nothing of the file's own but the guard macro. On a unit in
  which the guard is not yet defined, the whole of inclusion is: define the guard
  (with an empty replacement), then enter \<^verbatim>\<open>ghostty.h\<close> (unless it was entered
  before, as \<^verbatim>\<open>#import\<close> has it), then \<^verbatim>\<open>libssh2.h\<close>, then \<^verbatim>\<open>libssh2_sftp.h\<close>,
  each on the unit the step before it left; and the file has no line of program text
  that could declare anything.
\<close>

theorem header_exposes_external_headers_only:
  assumes "\<not> defined_macro guard s"
  shows "include_header ext s =
           and_then
             (and_then (import_once ext ghostty_h (define_macro guard [] s))
                (include_file ext libssh2_h))
             (include_file ext libssh2_sftp_h)
         \<and> code_lines header_lines = []"
  using assms by (simp add: include_header_fresh code_lines_header)

text \<open>
  The same at a concrete input: the empty unit, with external headers that each
  declare one symbol named after their path. The unit ends with those three symbols
  and the guard macro.
\<close>

theorem header_exposes_external_headers_only_witness:
  "\<not> defined_macro guard empty_unit \<and>
   include_header stub_headers empty_unit =
     Inr \<lparr>macros = [(''ghostty_bridging_header_h'', [])],
          seen = [Angled ''libssh2_sftp.h'', Angled ''libssh2.h'',
                  Quoted ''../Vendor/libghostty/include/ghostty.h''],
          decls = [''../Vendor/libghostty/include/ghostty.h'', ''libssh2.h'',
                   ''libssh2_sftp.h'']\<rparr>"
proof -
  have fresh: "\<not> defined_macro guard empty_unit" by (rule fresh_empty_unit)
  from header_exposes_external_headers_only [OF fresh, of stub_headers]
  show ?thesis
    by (simp add: defined_macro_def and_then_def include_file_def import_once_def
        define_macro_def stub_headers_def empty_unit_def guard_def ghostty_h_def
        libssh2_h_def libssh2_sftp_h_def)
qed

text \<open>
  C2. The file defines no function, type or protocol of its own: no line of it is
  anything but blank, a comment, one of the three guard directives, or an
  \<^verbatim>\<open>#import\<close>/\<^verbatim>\<open>#include\<close> of an external header, so the program text the file
  declares directly is empty.
\<close>

theorem header_declares_nothing:
  "filter (\<lambda>l. \<not> (l = Blank \<or> is_comment l \<or> is_guard_line l \<or> is_inclusion_line l))
     header_lines = []
   \<and> code_lines header_lines = []"
  by (simp add: header_lines_eq is_guard_directive_def guard_def)

text \<open>
  C3, as the specification states it, says that every directive outside the include
  guard is one of exactly two \<^verbatim>\<open>#include\<close> directives. Line 14 of the file refutes
  it: it is a directive, it is outside the guard, its keyword is \<^verbatim>\<open>import\<close>, and
  with it the directives outside the guard are three.
\<close>

theorem line_14_is_import_not_include:
  "hash_keyword (split_lines header_text ! 13) = Some ''import''
   \<and> classify (split_lines header_text ! 13) = Directive (Import ghostty_h)
   \<and> Import ghostty_h \<in> set (non_guard_directives header_lines)
   \<and> \<not> is_hash_include (Import ghostty_h)
   \<and> length (non_guard_directives header_lines) = 3"
  apply (simp add: raw_line_14 non_guard_directives_def directives_header is_guard_directive_def)
  apply (simp add: hash_keyword_def classify_def ltrim_def is_space_def directive_keyword_def
      is_ident_char_def parse_directive_def directive_operand_def ghostty_h_def)
  done

text \<open>
  C3, amended. The directives of the file outside its include guard are exactly three
  inclusion directives: one \<^verbatim>\<open>#import\<close> (of \<^verbatim>\<open>ghostty.h\<close>) followed by two
  \<^verbatim>\<open>#include\<close> (of \<^verbatim>\<open>libssh2.h\<close> and \<^verbatim>\<open>libssh2_sftp.h\<close>).
\<close>

theorem non_guard_directives_are_three_inclusions:
  "non_guard_directives header_lines =
     [Import ghostty_h, Include libssh2_h, Include libssh2_sftp_h]
   \<and> filter is_hash_import (directives_of header_lines) = [Import ghostty_h]
   \<and> filter is_hash_include (directives_of header_lines) =
       [Include libssh2_h, Include libssh2_sftp_h]"
  by (simp add: non_guard_directives_def directives_header is_guard_directive_def)

text \<open>
  C4. The file has no logic of its own: taken alone (the external headers contributing
  nothing), preprocessing it makes the same program text visible as preprocessing the
  empty file does, from every state of the unit; and its program text is that of the
  empty file, namely none.
\<close>

theorem header_equivalent_to_empty_program:
  "map_sum id decls (preprocess no_headers header_text s) =
     map_sum id decls (preprocess no_headers [] s)
   \<and> code_lines (parse header_text) = code_lines (parse [])"
proof -
  have "preprocess no_headers header_text s = include_header no_headers s"
    by (simp add: include_header_def)
  moreover have "preprocess no_headers [] s = Inr s"
    by (simp add: preprocess_def parse_def split_lines_def)
  moreover have "parse [] = []"
    by (simp add: parse_def split_lines_def)
  ultimately show ?thesis
    using code_lines_header
    by (simp add: include_header_no_headers header_lines_def)
qed




text \<open>
  C6. The file is exactly 21 lines long and purely declarative: 4 lines are blank, 11
  are comments and 6 are preprocessor directives (the guard and the header imports),
  which accounts for all 21; no line is program text.
\<close>

theorem header_is_21_declarative_lines:
  "length (split_lines header_text) = 21
   \<and> length (filter (\<lambda>l. l = Blank) header_lines) = 4
   \<and> length (filter is_comment header_lines) = 11
   \<and> length (directives_of header_lines) = 6
   \<and> code_lines header_lines = []"
  by (simp add: split_header_length header_lines_eq)

text \<open>
  C8. Inclusion is idempotent: including the header two or more times in a row gives
  exactly what including it once gives, and the unit that one inclusion leaves is not
  changed by a further one. The guard does it; the headers the file enters are not in
  the repository, and what is asked of them (\<open>keeps_guard\<close>) is that they leave this
  file's guard macro defined. Where they are found and process, one inclusion does
  leave a unit.
\<close>

theorem header_inclusion_idempotent:
  assumes "keeps_guard ext" and "2 \<le> n"
  shows "include_times ext n s = include_header ext s
         \<and> (\<forall>s'. include_header ext s = Inr s' \<longrightarrow> include_header ext s' = Inr s')
         \<and> (headers_process ext \<longrightarrow>
              (\<exists>s'. include_header ext s = Inr s' \<and> include_header ext s' = Inr s'))"
proof -
  from assms(2) obtain m where "n = Suc m" by (cases n) simp_all
  with assms(1) have times: "include_times ext n s = include_header ext s"
    by (simp only: include_times_Suc)
  have again: "include_header ext s' = Inr s'" if "include_header ext s = Inr s'" for s'
    using assms(1) that by (simp add: include_header_defines include_header_guarded)
  have "\<exists>s'. include_header ext s = Inr s' \<and> include_header ext s' = Inr s'"
    if "headers_process ext"
    using include_header_processes [OF that, of s] again by blast
  with times again show ?thesis by blast
qed

text \<open>Three inclusions into the empty unit, with the one-symbol headers.\<close>

theorem header_inclusion_idempotent_witness:
  "keeps_guard stub_headers \<and> headers_process stub_headers \<and> (2::nat) \<le> 3 \<and>
   include_times stub_headers 3 empty_unit = include_header stub_headers empty_unit \<and>
   include_header stub_headers empty_unit =
     Inr \<lparr>macros = [(''ghostty_bridging_header_h'', [])],
          seen = [Angled ''libssh2_sftp.h'', Angled ''libssh2.h'',
                  Quoted ''../Vendor/libghostty/include/ghostty.h''],
          decls = [''../Vendor/libghostty/include/ghostty.h'', ''libssh2.h'',
                   ''libssh2_sftp.h'']\<rparr> \<and>
   include_header stub_headers
     \<lparr>macros = [(''ghostty_bridging_header_h'', [])],
      seen = [Angled ''libssh2_sftp.h'', Angled ''libssh2.h'',
              Quoted ''../Vendor/libghostty/include/ghostty.h''],
      decls = [''../Vendor/libghostty/include/ghostty.h'', ''libssh2.h'',
               ''libssh2_sftp.h'']\<rparr> =
     Inr \<lparr>macros = [(''ghostty_bridging_header_h'', [])],
          seen = [Angled ''libssh2_sftp.h'', Angled ''libssh2.h'',
                  Quoted ''../Vendor/libghostty/include/ghostty.h''],
          decls = [''../Vendor/libghostty/include/ghostty.h'', ''libssh2.h'',
                   ''libssh2_sftp.h'']\<rparr>"
proof -
  have le: "(2::nat) \<le> 3" by simp
  note once = include_header_stub_empty
  from header_inclusion_idempotent [OF keeps_guard_stub le, of empty_unit] once
  show ?thesis by (simp add: keeps_guard_stub headers_process_stub)
qed

text \<open>
  C9. The headers the file includes directly are exactly
  \<^verbatim>\<open>"../Vendor/libghostty/include/ghostty.h"\<close>, \<^verbatim>\<open><libssh2.h>\<close> and
  \<^verbatim>\<open><libssh2_sftp.h>\<close>, in this order; \<^verbatim>\<open>ghostty/vt.h\<close> is not among them in
  either form.
\<close>

theorem header_includes_exactly_three:
  "included_targets header_lines =
     [Quoted ''../Vendor/libghostty/include/ghostty.h'', Angled ''libssh2.h'',
      Angled ''libssh2_sftp.h'']
   \<and> set (included_targets header_lines) =
       {Quoted ''../Vendor/libghostty/include/ghostty.h'', Angled ''libssh2.h'',
        Angled ''libssh2_sftp.h''}
   \<and> Quoted ''ghostty/vt.h'' \<notin> set (included_targets header_lines)
   \<and> Angled ''ghostty/vt.h'' \<notin> set (included_targets header_lines)"
  by (simp add: header_lines_eq)

text \<open>
  C10. The only macro the file defines is \<^verbatim>\<open>ghostty_bridging_header_h\<close>, with an
  empty replacement; taken alone (the external headers contributing nothing),
  inclusion adds that one definition to the unit's macros when the guard was not
  defined, and none when it was.
\<close>

theorem header_defines_only_guard:
  "own_defines header_lines = [(''ghostty_bridging_header_h'', [])]
   \<and> map_sum id macros (include_header no_headers s) =
       Inr (if defined_macro ''ghostty_bridging_header_h'' s then macros s
            else (''ghostty_bridging_header_h'', []) # macros s)"
  by (simp add: header_lines_eq include_header_no_headers guard_def)

end
